theory Spec2Isabelle
  imports Main "HOL-Library.Word"
begin

unbundle bit_operations_syntax

section \<open>The PipeMode dataset kernel\<close>

text \<open>
  A model of \<^verbatim>\<open>pipemode_dataset_op_kernel.cpp\<close>: the path of a channel's FIFO
  (\<^verbatim>\<open>BuildPipeName\<close>), the kernel's \<^verbatim>\<open>MakeDataset\<close>, the dataset's
  \<^verbatim>\<open>MakeIterator\<close> and \<^verbatim>\<open>AsGraphDefInternal\<close>, and the iterator's constructor
  and \<^verbatim>\<open>GetNextInternal\<close>. A \<^verbatim>\<open>std::string\<close> is a \<open>string\<close> (a list of bytes),
  \<^verbatim>\<open>uint32_t\<close> is a 32-bit word and \<^verbatim>\<open>size_t\<close> a 64-bit word (LP64). A C++
  exception is a value: a function that can throw returns a sum, \<open>Inl\<close> the exception.
  The classes the kernel uses from headers of its own repository
  (\<^verbatim>\<open>PipeStateManager.hpp\<close> and the record readers) are not in this source
  file: the pipe state manager, the text-line reader and the opening of a FIFO are
  modelled from the specification, and each such definition says so.
\<close>

subsection \<open>Values\<close>

type_synonym u32 = "32 word"
type_synonym size_t = "64 word"

text \<open>
  What a C++ call can end with other than a return: an exception derived from
  \<^verbatim>\<open>std::runtime_error\<close> (with its \<^verbatim>\<open>what()\<close>), any other exception, or an access
  the language leaves undefined (a \<^verbatim>\<open>std::string\<close> indexed past its size).
\<close>

datatype exn =
  runtime_error string
  | other_exception string
  | out_of_bounds_read size_t

text \<open>\<^verbatim>\<open>tensorflow::Status\<close>: OK, or an error code with a message.\<close>

datatype Code = INVALID_ARGUMENT | INTERNAL | OTHER_CODE nat

datatype Status = OK | Failed Code string

text \<open>A tensor of type \<^verbatim>\<open>DT_STRING\<close> and shape \<^verbatim>\<open>TensorShape({})\<close>: one string.\<close>

datatype Tensor = ScalarString string

subsection \<open>\<^verbatim>\<open>std::to_string\<close> and \<^verbatim>\<open>std::string::operator[]\<close>\<close>

definition digit_char :: "nat \<Rightarrow> char" where
  "digit_char d = ''0123456789'' ! d"

fun to_string :: "nat \<Rightarrow> string" where
  "to_string n = (if n < 10 then [digit_char n] else to_string (n div 10) @ [digit_char (n mod 10)])"

declare to_string.simps [simp del]

text \<open>
  \<^verbatim>\<open>s[pos]\<close>: the byte at \<open>pos\<close> below the size, the terminating null at the size
  itself, undefined above it.
\<close>

definition string_index :: "string \<Rightarrow> size_t \<Rightarrow> exn + char" where
  "string_index s pos =
     (if unat pos < length s then Inr (s ! unat pos)
      else if unat pos = length s then Inr (CHR 0x00)
      else Inl (out_of_bounds_read pos))"

subsection \<open>\<^verbatim>\<open>BuildPipeName\<close>\<close>

text \<open>
  \<^verbatim>\<open>channel_path.length() - 1\<close> is computed in \<^verbatim>\<open>size_t\<close>: for the empty string it
  is \<open>0 - 1\<close>, which wraps to the largest \<^verbatim>\<open>size_t\<close>.
\<close>

definition BuildPipeName :: "string \<Rightarrow> string \<Rightarrow> u32 \<Rightarrow> exn + string" where
  "BuildPipeName channel_directory channel_name pipe_index =
     (let pipe_name = channel_name @ ''_'' @ to_string (unat pipe_index);
          channel_path = channel_directory
      in case string_index channel_path (word_of_nat (length channel_path) - 1) of
           Inl e \<Rightarrow> Inl e
         | Inr c \<Rightarrow>
             Inr ((if c \<noteq> CHR ''/'' then channel_path @ ''/'' else channel_path) @ pipe_name))"

text \<open>
  \<^verbatim>\<open>operator[]\<close> is unchecked: compiled, the function has no error exit and always
  returns a string. \<open>BuildPipeName\<close> above marks the undefined access;
  \<open>BuildPipeName_unchecked\<close> is the string the function returns, with the byte that
  an access above the size finds there as the parameter \<open>outside\<close> (the language does
  not say what it is). Where the access is in range the two agree.
\<close>

definition unchecked_index :: "(size_t \<Rightarrow> char) \<Rightarrow> string \<Rightarrow> size_t \<Rightarrow> char" where
  "unchecked_index outside s pos =
     (case string_index s pos of Inr c \<Rightarrow> c | Inl e \<Rightarrow> outside pos)"

definition BuildPipeName_unchecked ::
  "(size_t \<Rightarrow> char) \<Rightarrow> string \<Rightarrow> string \<Rightarrow> u32 \<Rightarrow> string" where
  "BuildPipeName_unchecked outside channel_directory channel_name pipe_index =
     (let pipe_name = channel_name @ ''_'' @ to_string (unat pipe_index);
          channel_path = channel_directory
      in (if unchecked_index outside channel_path (word_of_nat (length channel_path) - 1)
               \<noteq> CHR ''/''
          then channel_path @ ''/'' else channel_path) @ pipe_name)"

subsection \<open>The world outside the kernel\<close>

text \<open>
  What the kernel acts on: the FIFOs of the channel directory, the paths opened so far,
  and the pipe-index files of the state directories. The model is sequential: a FIFO is
  the byte sequence its producer writes before closing it, so a read never blocks, and
  I/O faults of an open stream are left out.
\<close>

record world =
  fifos :: "string \<Rightarrow> string option"
  opened :: "string list"
  pipe_state :: "string \<times> string \<Rightarrow> u32 option"
  writable :: "string \<Rightarrow> bool"

subsection \<open>\<^verbatim>\<open>PipeStateManager\<close>\<close>

record PipeStateManager =
  state_directory :: string
  channel :: string



subsection \<open>The record readers\<close>

type_synonym read_outcome = "exn + string option"

text \<open>
  \<^verbatim>\<open>bool ReadRecord(std::string* storage)\<close> ends in one of three ways: it returns true
  with the record in \<open>storage\<close> (\<open>Inr (Some record)\<close>), it returns false
  (\<open>Inr None\<close>), or it throws (\<open>Inl\<close>).
\<close>

definition LF :: char where
  "LF = CHR 0x0A"

text \<open>
  Modelled from the spec: \<^verbatim>\<open>TextLineRecordReader::ReadRecord\<close> is not in the
  source file. The spec's text-line variant: the bytes before the next line feed
  are one record and the line feed is dropped; a non-empty fragment after the last line
  feed is a final record; a stream that ends at a line feed, or is empty, is at its end.
\<close>

definition TextLineRecordReader_ReadRecord :: "string \<Rightarrow> read_outcome \<times> string" where
  "TextLineRecordReader_ReadRecord s =
     (let line = takeWhile (\<lambda>c. c \<noteq> LF) s;
          rest = dropWhile (\<lambda>c. c \<noteq> LF) s
      in if rest \<noteq> [] then (Inr (Some line), tl rest)
         else if line \<noteq> [] then (Inr (Some line), [])
         else (Inr None, []))"

datatype reader_kind = RecordIOReader | TFRecordReader | TextLineRecordReader

record RecordReader =
  kind :: reader_kind
  pipe_path :: string
  stream :: string

text \<open>
  Modelled from the spec: the readers' constructors are not in the source file.
  Constructing a reader over a path opens that FIFO; a path that cannot be opened fails
  the construction.
\<close>

definition new_RecordReader ::
  "reader_kind \<Rightarrow> string \<Rightarrow> world \<Rightarrow> (exn + RecordReader) \<times> world" where
  "new_RecordReader k path w =
     (case fifos w path of
        None \<Rightarrow> (Inl (runtime_error ''InvalidArgument''), w)
      | Some bytes \<Rightarrow>
          (Inr \<lparr>kind = k, pipe_path = path, stream = bytes\<rparr>, w\<lparr>opened := opened w @ [path]\<rparr>))"

subsection \<open>The iterator\<close>

record Iterator =
  prefix :: string
  record_reader' :: RecordReader

text \<open>The constructor's choice of reader: the chain of comparisons on \<open>record_format\<close>.\<close>

definition Iterator_reader_kind :: "string \<Rightarrow> reader_kind" where
  "Iterator_reader_kind record_format =
     (if record_format = ''RecordIO'' then RecordIOReader
      else if record_format = ''TFRecord'' then TFRecordReader
      else TextLineRecordReader)"

definition new_Iterator ::
  "string \<Rightarrow> string \<Rightarrow> string \<Rightarrow> string \<Rightarrow> u32 \<Rightarrow> world \<Rightarrow> (exn + Iterator) \<times> world" where
  "new_Iterator params_prefix record_format channel_directory channel_name pipe_index w =
     (case BuildPipeName channel_directory channel_name pipe_index of
        Inl e \<Rightarrow> (Inl e, w)
      | Inr path \<Rightarrow>
          (case new_RecordReader (Iterator_reader_kind record_format) path w of
             (Inl e, w') \<Rightarrow> (Inl e, w')
           | (Inr r, w') \<Rightarrow> (Inr \<lparr>prefix = params_prefix, record_reader' = r\<rparr>, w')))"

text \<open>
  \<^verbatim>\<open>GetNextInternal\<close>. The virtual call \<^verbatim>\<open>record_reader_->ReadRecord(storage)\<close> is
  the parameter \<open>rd\<close>, a step on the reader's state \<open>'r\<close>: for a text-line reader
  \<open>TextLineRecordReader_ReadRecord\<close> on the rest of its stream. The mutex only
  serialises callers
  and has no counterpart in this sequential model. The call
  returns a status unless an exception that is not a \<^verbatim>\<open>std::runtime_error\<close> leaves it;
  \<open>out_tensors\<close> and \<open>end_of_sequence\<close> are the caller's output parameters after the
  call, \<open>reader\<close> the reader's state after it.
\<close>

record 'r next_result =
  status :: "exn + Status"
  out_tensors :: "Tensor list"
  end_of_sequence :: bool
  reader :: 'r

definition GetNextInternal ::
  "('r \<Rightarrow> read_outcome \<times> 'r) \<Rightarrow> 'r \<Rightarrow> Tensor list \<Rightarrow> 'r next_result" where
  "GetNextInternal rd r out =
     (case rd r of
        (Inr (Some storage), r') \<Rightarrow>
          \<lparr>status = Inr OK, out_tensors = out @ [ScalarString storage],
           end_of_sequence = False, reader = r'\<rparr>
      | (Inr None, r') \<Rightarrow>
          \<lparr>status = Inr OK, out_tensors = out, end_of_sequence = True, reader = r'\<rparr>
      | (Inl (runtime_error what), r') \<Rightarrow>
          \<lparr>status = Inr (Failed INTERNAL what), out_tensors = out,
           end_of_sequence = False, reader = r'\<rparr>
      | (Inl e, r') \<Rightarrow>
          \<lparr>status = Inl e, out_tensors = out, end_of_sequence = False, reader = r'\<rparr>)"

text \<open>The host's pulls one after the other: the result of the call after \<open>n\<close> earlier ones.\<close>

fun nth_next :: "('r \<Rightarrow> read_outcome \<times> 'r) \<Rightarrow> nat \<Rightarrow> 'r \<Rightarrow> Tensor list \<Rightarrow> 'r next_result" where
  "nth_next rd 0 r out = GetNextInternal rd r out"
| "nth_next rd (Suc n) r out =
     nth_next rd n (reader (GetNextInternal rd r out)) (out_tensors (GetNextInternal rd r out))"

subsection \<open>The dataset and the kernel\<close>

text \<open>The members \<^verbatim>\<open>record_format_\<close>, \<^verbatim>\<open>channel_\<close>, ... are written with a prime
  for the trailing underscore.\<close>

record Dataset =
  record_format' :: string
  channel_directory' :: string
  channel' :: string
  pipe_state_manager' :: PipeStateManager


definition AsGraphDefInternal :: "Dataset \<Rightarrow> exn + Status" where
  "AsGraphDefInternal d = Inl (runtime_error ''Conversion to GraphDef is not supported.'')"

text \<open>
  \<^verbatim>\<open>MakeDataset\<close>. The context gives, for each input name, what
  \<^verbatim>\<open>ParseScalarArgument\<close> returns for it: its status and, when that is OK, the
  scalar. The result is the status left in the context and the dataset stored in
  \<open>*output\<close>, if any.
\<close>

type_synonym OpKernelContext = "string \<Rightarrow> Status \<times> string"

definition MakeDataset :: "OpKernelContext \<Rightarrow> world \<Rightarrow> (Status \<times> Dataset option) \<times> world" where
  "MakeDataset ctx w =
     (let (s1, record_format) = ctx ''record_format'' in
      if s1 \<noteq> OK then ((s1, None), w) else
      let (s2, state_dir) = ctx ''state_directory'' in
      if s2 \<noteq> OK then ((s2, None), w) else
      let (s3, channel_directory) = ctx ''channel_directory'' in
      if s3 \<noteq> OK then ((s3, None), w) else
      let (s4, channel_name) = ctx ''channel'' in
      if s4 \<noteq> OK then ((s4, None), w) else
      if \<not> (record_format = ''RecordIO'' \<or> record_format = ''TFRecord''
             \<or> record_format = ''TextLine'')
      then ((Failed INVALID_ARGUMENT (''Invalid record format: '' @ record_format), None), w)
      else ((OK, Some \<lparr>record_format' = record_format,
                       channel_directory' = channel_directory,
                       channel' = channel_name,
                       pipe_state_manager' =
                         \<lparr>state_directory = state_dir, channel = channel_name\<rparr>\<rparr>), w))"

subsection \<open>Example inputs\<close>

text \<open>
  A dataset over the channel \<open>train\<close>, a context whose four inputs parse, and a
  world with fresh state and the FIFOs of pipe indices 0 and 1.
\<close>

definition example_dataset :: Dataset where
  "example_dataset =
     \<lparr>record_format' = ''TextLine'', channel_directory' = ''/tmp/chan'', channel' = ''train'',
      pipe_state_manager' = \<lparr>state_directory = ''/tmp/state'', channel = ''train''\<rparr>\<rparr>"

definition example_ctx :: "string \<Rightarrow> OpKernelContext" where
  "example_ctx fmt =
     (\<lambda>name. (Failed INVALID_ARGUMENT ''no such input'', []))
       (''record_format'' := (OK, fmt),
        ''state_directory'' := (OK, ''/tmp/state''),
        ''channel_directory'' := (OK, ''/tmp/chan''),
        ''channel'' := (OK, ''train''))"

definition example_world :: world where
  "example_world =
     \<lparr>fifos = [''/tmp/chan/train_0'' \<mapsto> ''a\<newline>b'', ''/tmp/chan/train_1'' \<mapsto> ''c''],
      opened = [],
      pipe_state = (\<lambda>key. None),
      writable = (\<lambda>dir. True)\<rparr>"

text \<open>
  A reader over a stream that does not parse: every \<^verbatim>\<open>ReadRecord\<close> throws
  \<^verbatim>\<open>std::runtime_error("CorruptRecord")\<close> and leaves the stream where it is.
\<close>

definition corrupt_reader :: "string \<Rightarrow> read_outcome \<times> string" where
  "corrupt_reader s = (Inl (runtime_error ''CorruptRecord''), s)"

section \<open>Properties\<close>

subsection \<open>Decimal numerals and pipe names\<close>





lemma BuildPipeName_Nil: "BuildPipeName [] ch i = Inl (out_of_bounds_read 0xFFFFFFFFFFFFFFFF)"
  by (simp add: BuildPipeName_def string_index_def unsigned_minus_1_eq_mask mask_eq_exp_minus_1)

lemma string_index_last:
  assumes "cd \<noteq> []" "length cd < 2 ^ 64"
  shows "string_index cd (word_of_nat (length cd) - 1) = Inr (last cd)"
proof -
  have "unat (word_of_nat (length cd) - (1::size_t)) = length cd - 1"
    using assms by (simp add: unat_sub unat_of_nat word_le_nat_alt Suc_leI)
  then show ?thesis using assms by (simp add: string_index_def last_conv_nth)
qed

lemma BuildPipeName_nonempty:
  assumes "cd \<noteq> []" "length cd < 2 ^ 64"
  shows "BuildPipeName cd ch i =
    Inr ((if last cd \<noteq> CHR ''/'' then cd @ ''/'' else cd) @ ch @ ''_'' @ to_string (unat i))"
  using assms by (simp add: BuildPipeName_def string_index_last)



text \<open>
  Claim C10: \<^verbatim>\<open>BuildPipeName\<close> requires a non-empty base directory. For the empty
  string the index \<^verbatim>\<open>length() - 1\<close> of the trailing-slash check wraps to the largest
  \<^verbatim>\<open>size_t\<close>, which is out of bounds, and the call has no defined result; for every
  non-empty string (shorter than \<open>2 ^ 64\<close> bytes, as every \<^verbatim>\<open>std::string\<close> is) the
  check reads the last byte and the call returns a path.
\<close>

theorem BuildPipeName_requires_nonempty_directory:
  assumes "length channel_directory < 2 ^ 64"
  shows "(channel_directory = [] \<longrightarrow>
            word_of_nat (length channel_directory) - 1 = (0xFFFFFFFFFFFFFFFF :: size_t)
            \<and> string_index channel_directory (word_of_nat (length channel_directory) - 1)
                = Inl (out_of_bounds_read 0xFFFFFFFFFFFFFFFF)
            \<and> BuildPipeName channel_directory channel_name pipe_index
                = Inl (out_of_bounds_read 0xFFFFFFFFFFFFFFFF))
         \<and> (channel_directory \<noteq> [] \<longrightarrow>
            string_index channel_directory (word_of_nat (length channel_directory) - 1)
                = Inr (last channel_directory)
            \<and> (\<exists>path. BuildPipeName channel_directory channel_name pipe_index = Inr path))"
proof (cases "channel_directory = []")
  case True
  then show ?thesis
    by (simp add: BuildPipeName_Nil string_index_def unsigned_minus_1_eq_mask
        mask_eq_exp_minus_1)
next
  case False
  with assms show ?thesis
    by (simp add: BuildPipeName_nonempty string_index_last)
qed

theorem BuildPipeName_requires_nonempty_directory_witness:
  "length ([] :: string) < 2 ^ 64
   \<and> BuildPipeName [] ''train'' 7 = Inl (out_of_bounds_read 0xFFFFFFFFFFFFFFFF)
   \<and> length ''/tmp/chan'' < 2 ^ 64
   \<and> string_index ''/tmp/chan'' (word_of_nat (length ''/tmp/chan'') - 1) = Inr CHR ''n''
   \<and> (\<exists>path. BuildPipeName ''/tmp/chan'' ''train'' 7 = Inr path)"
  using BuildPipeName_requires_nonempty_directory [of "[]" "''train''" 7]
    BuildPipeName_requires_nonempty_directory [of "''/tmp/chan''" "''train''" 7]
  by simp

text \<open>
  The pipe name of a non-empty base directory: without a trailing slash the path is
  base + "/" + channel + "_" + the decimal index, and the same base directory with
  the trailing slash gives the same path.
\<close>

theorem BuildPipeName_one_separator:
  assumes "channel_directory \<noteq> []" and "length channel_directory + 1 < 2 ^ 64"
    and "last channel_directory \<noteq> CHR ''/''"
  shows "BuildPipeName channel_directory channel_name pipe_index
           = Inr (channel_directory @ ''/'' @ channel_name @ ''_'' @ to_string (unat pipe_index))
         \<and> BuildPipeName (channel_directory @ ''/'') channel_name pipe_index
           = BuildPipeName channel_directory channel_name pipe_index"
proof -
  have "length channel_directory < 2 ^ 64"
    using assms(2) by simp
  with assms(1,3) have a: "BuildPipeName channel_directory channel_name pipe_index
      = Inr (channel_directory @ ''/'' @ channel_name @ ''_'' @ to_string (unat pipe_index))"
    by (simp add: BuildPipeName_nonempty)
  have "BuildPipeName (channel_directory @ ''/'') channel_name pipe_index
      = Inr (channel_directory @ ''/'' @ channel_name @ ''_'' @ to_string (unat pipe_index))"
    using assms(2) by (simp add: BuildPipeName_nonempty)
  with a show ?thesis by simp
qed

theorem BuildPipeName_one_separator_witness:
  "''/tmp/chan'' \<noteq> [] \<and> length ''/tmp/chan'' + 1 < 2 ^ 64 \<and> last ''/tmp/chan'' \<noteq> CHR ''/''
   \<and> BuildPipeName ''/tmp/chan'' ''train'' 2 = Inr ''/tmp/chan/train_2''
   \<and> BuildPipeName ''/tmp/chan/'' ''train'' 2 = Inr ''/tmp/chan/train_2''"
  using BuildPipeName_one_separator [of "''/tmp/chan''" "''train''" 2]
  by (simp add: to_string.simps digit_char_def)

lemma unchecked_index_last:
  assumes "cd \<noteq> []" and "length cd < 2 ^ 64"
  shows "unchecked_index outside cd (word_of_nat (length cd) - 1) = last cd"
  using assms by (simp add: unchecked_index_def string_index_last)

lemma unchecked_index_Nil:
  "unchecked_index outside [] (word_of_nat (length ([] :: string)) - 1)
     = outside 0xFFFFFFFFFFFFFFFF"
proof -
  have idx: "word_of_nat (length ([] :: string)) - 1 = (0xFFFFFFFFFFFFFFFF :: size_t)"
    by simp
  have "string_index [] 0xFFFFFFFFFFFFFFFF = Inl (out_of_bounds_read 0xFFFFFFFFFFFFFFFF)"
    by (simp add: string_index_def)
  then have "unchecked_index outside [] 0xFFFFFFFFFFFFFFFF = outside 0xFFFFFFFFFFFFFFFF"
    by (simp add: unchecked_index_def)
  with idx show ?thesis
    by (simp only:)
qed

lemma BuildPipeName_unchecked_nonempty:
  assumes "cd \<noteq> []" and "length cd < 2 ^ 64"
  shows "BuildPipeName_unchecked outside cd ch i =
    (if last cd \<noteq> CHR ''/'' then cd @ ''/'' else cd) @ ch @ ''_'' @ to_string (unat i)"
  using assms by (simp add: BuildPipeName_unchecked_def unchecked_index_last)

lemma BuildPipeName_unchecked_Nil:
  "BuildPipeName_unchecked outside [] ch i =
    (if outside 0xFFFFFFFFFFFFFFFF \<noteq> CHR ''/'' then ''/'' else []) @ ch @ ''_''
      @ to_string (unat i)"
  using unchecked_index_Nil [of outside] by (simp add: BuildPipeName_unchecked_def)

lemma BuildPipeName_unchecked_agrees:
  "BuildPipeName cd ch i = Inr path \<Longrightarrow> BuildPipeName_unchecked outside cd ch i = path"
  by (auto simp: BuildPipeName_def BuildPipeName_unchecked_def unchecked_index_def
      split: sum.splits)

text \<open>
  Claim C3: the FIFO path is base + "/" + channel + "_" + the decimal index, with
  exactly one separator between base directory and file name. For every base directory
  the function returns the base, a slash unless the base already ends in one, and the
  file name; so a base directory without a trailing slash gives base + "/" + channel +
  "_" + index, and the same base directory with the trailing slash gives the identical
  path. For the empty base directory the slash check reads outside the string (claim
  C10), and the path is the claimed "/" + file name whenever the byte found there is not
  a slash.
\<close>

theorem BuildPipeName_unchecked_one_separator:
  assumes "length channel_directory + 1 < 2 ^ 64"
    and "channel_directory = [] \<longrightarrow> outside 0xFFFFFFFFFFFFFFFF \<noteq> CHR ''/''"
  shows "BuildPipeName_unchecked outside channel_directory channel_name pipe_index
           = (if channel_directory \<noteq> [] \<and> last channel_directory = CHR ''/''
              then channel_directory else channel_directory @ ''/'')
             @ channel_name @ ''_'' @ to_string (unat pipe_index)
         \<and> (channel_directory = [] \<or> last channel_directory \<noteq> CHR ''/'' \<longrightarrow>
              BuildPipeName_unchecked outside channel_directory channel_name pipe_index
                = channel_directory @ ''/'' @ channel_name @ ''_'' @ to_string (unat pipe_index)
              \<and> BuildPipeName_unchecked outside (channel_directory @ ''/'') channel_name pipe_index
                = BuildPipeName_unchecked outside channel_directory channel_name pipe_index)"
proof -
  have slash: "BuildPipeName_unchecked outside (channel_directory @ ''/'') channel_name pipe_index
      = channel_directory @ ''/'' @ channel_name @ ''_'' @ to_string (unat pipe_index)"
    using assms(1) by (simp add: BuildPipeName_unchecked_nonempty)
  show ?thesis
  proof (cases "channel_directory = []")
    case True
    with assms(2) slash show ?thesis
      by (simp add: BuildPipeName_unchecked_Nil)
  next
    case False
    moreover from assms(1) have "length channel_directory < 2 ^ 64"
      by simp
    ultimately show ?thesis
      using slash by (simp add: BuildPipeName_unchecked_nonempty)
  qed
qed

theorem BuildPipeName_unchecked_one_separator_witness:
  "length ''/tmp/chan'' + 1 < 2 ^ 64
   \<and> BuildPipeName_unchecked (\<lambda>pos. CHR 0x00) ''/tmp/chan'' ''train'' 2 = ''/tmp/chan/train_2''
   \<and> BuildPipeName_unchecked (\<lambda>pos. CHR 0x00) ''/tmp/chan/'' ''train'' 2 = ''/tmp/chan/train_2''
   \<and> length ([] :: string) + 1 < 2 ^ 64
   \<and> (\<lambda>pos :: size_t. CHR 0x00) 0xFFFFFFFFFFFFFFFF \<noteq> CHR ''/''
   \<and> BuildPipeName_unchecked (\<lambda>pos. CHR 0x00) [] ''train'' 2 = ''/train_2''
   \<and> BuildPipeName_unchecked (\<lambda>pos. CHR 0x00) ''/'' ''train'' 2 = ''/train_2''"
  using BuildPipeName_unchecked_one_separator [of "''/tmp/chan''" "\<lambda>pos. CHR 0x00" "''train''" 2]
    BuildPipeName_unchecked_one_separator [of "[]" "\<lambda>pos. CHR 0x00" "''train''" 2]
  by (simp add: to_string.simps digit_char_def)

subsection \<open>\<^verbatim>\<open>MakeDataset\<close>\<close>

text \<open>
  Claim C1: construction validates the format tag. When the \<open>record_format\<close> input
  parses to a string, \<^verbatim>\<open>MakeDataset\<close> stores a dataset only if the string is exactly
  "RecordIO", "TFRecord" or "TextLine". For any other string it stores none and leaves a
  non-OK status, which is \<^verbatim>\<open>InvalidArgument("Invalid record format: " + record_format)\<close>
  when the other three inputs parse (they are parsed first, and a failure of theirs is
  reported instead). \<^verbatim>\<open>MakeDataset\<close> leaves the world as it is: no FIFO is opened, no
  reader is constructed.
\<close>

theorem MakeDataset_validates_record_format:
  assumes "ctx ''record_format'' = (OK, record_format)"
  shows "(snd (fst (MakeDataset ctx w)) \<noteq> None \<longrightarrow>
            fst (fst (MakeDataset ctx w)) = OK
            \<and> (record_format = ''RecordIO'' \<or> record_format = ''TFRecord''
                 \<or> record_format = ''TextLine''))
         \<and> (record_format \<noteq> ''RecordIO'' \<and> record_format \<noteq> ''TFRecord''
              \<and> record_format \<noteq> ''TextLine'' \<longrightarrow>
            snd (fst (MakeDataset ctx w)) = None
            \<and> fst (fst (MakeDataset ctx w)) \<noteq> OK
            \<and> (fst (ctx ''state_directory'') = OK \<and> fst (ctx ''channel_directory'') = OK
                 \<and> fst (ctx ''channel'') = OK \<longrightarrow>
                fst (fst (MakeDataset ctx w))
                  = Failed INVALID_ARGUMENT (''Invalid record format: '' @ record_format)))
         \<and> snd (MakeDataset ctx w) = w"
  using assms
  by (auto simp: MakeDataset_def Let_def split: prod.splits if_splits)

theorem MakeDataset_validates_record_format_witness:
  "example_ctx ''CSV'' ''record_format'' = (OK, ''CSV'')
   \<and> MakeDataset (example_ctx ''CSV'') example_world
       = ((Failed INVALID_ARGUMENT ''Invalid record format: CSV'', None), example_world)
   \<and> example_ctx ''TFRecord'' ''record_format'' = (OK, ''TFRecord'')
   \<and> fst (MakeDataset (example_ctx ''TFRecord'') example_world)
       = (OK, Some (example_dataset\<lparr>record_format' := ''TFRecord''\<rparr>))"
  using MakeDataset_validates_record_format [of "example_ctx ''CSV''" "''CSV''" example_world]
    MakeDataset_validates_record_format [of "example_ctx ''TFRecord''" "''TFRecord''" example_world]
  by (simp add: example_ctx_def MakeDataset_def example_dataset_def)

text \<open>
  When the four inputs parse and the tag is one of the three, \<^verbatim>\<open>MakeDataset\<close> stores
  the dataset of those inputs, with a pipe state manager over the state directory and
  the channel, and the status stays OK.
\<close>

theorem MakeDataset_constructs_dataset:
  assumes "ctx ''record_format'' = (OK, record_format)"
    and "ctx ''state_directory'' = (OK, state_dir)"
    and "ctx ''channel_directory'' = (OK, channel_directory)"
    and "ctx ''channel'' = (OK, channel_name)"
    and "record_format = ''RecordIO'' \<or> record_format = ''TFRecord''
         \<or> record_format = ''TextLine''"
  shows "MakeDataset ctx w =
           ((OK, Some \<lparr>record_format' = record_format,
                       channel_directory' = channel_directory,
                       channel' = channel_name,
                       pipe_state_manager' =
                         \<lparr>state_directory = state_dir, channel = channel_name\<rparr>\<rparr>), w)"
  using assms by (simp add: MakeDataset_def)

theorem MakeDataset_constructs_dataset_witness:
  "MakeDataset (example_ctx ''TextLine'') example_world = ((OK, Some example_dataset), example_world)"
  using MakeDataset_constructs_dataset [of "example_ctx ''TextLine''" "''TextLine''"
      "''/tmp/state''" "''/tmp/chan''" "''train''" example_world]
  by (simp add: example_ctx_def example_dataset_def)

subsection \<open>The iterator's constructor\<close>

text \<open>
  Claim C9: the constructor's choice of reader is total and defaults to the text-line
  reader. For every \<open>record_format\<close> that is neither "RecordIO" nor "TFRecord" the
  text-line reader is chosen, and the constructor does exactly what it does for
  "TextLine": the choice adds no failure of its own, so the check in \<^verbatim>\<open>MakeDataset\<close>
  is the only guard against an unknown tag.
\<close>

theorem Iterator_reader_defaults_to_TextLine:
  assumes "record_format \<noteq> ''RecordIO''" and "record_format \<noteq> ''TFRecord''"
  shows "Iterator_reader_kind record_format = TextLineRecordReader
         \<and> new_Iterator params_prefix record_format channel_directory channel_name pipe_index w
             = new_Iterator params_prefix ''TextLine'' channel_directory channel_name pipe_index w
         \<and> (\<forall>it w'. new_Iterator params_prefix record_format channel_directory channel_name
                        pipe_index w = (Inr it, w')
               \<longrightarrow> kind (record_reader' it) = TextLineRecordReader)"
  using assms
  by (auto simp: Iterator_reader_kind_def new_Iterator_def new_RecordReader_def
      split: sum.splits option.splits prod.splits)

theorem Iterator_reader_defaults_to_TextLine_witness:
  "''CSV'' \<noteq> ''RecordIO'' \<and> ''CSV'' \<noteq> ''TFRecord''
   \<and> Iterator_reader_kind ''CSV'' = TextLineRecordReader
   \<and> new_Iterator ''it'' ''CSV'' ''/tmp/chan'' ''train'' 0 example_world
       = (Inr \<lparr>prefix = ''it'',
               record_reader' = \<lparr>kind = TextLineRecordReader, pipe_path = ''/tmp/chan/train_0'',
                                 stream = ''a\<newline>b''\<rparr>\<rparr>,
          example_world\<lparr>opened := [''/tmp/chan/train_0'']\<rparr>)"
  using Iterator_reader_defaults_to_TextLine [of "''CSV''" "''it''" "''/tmp/chan''" "''train''" 0 example_world]
  by (simp add: new_Iterator_def new_RecordReader_def BuildPipeName_def string_index_def
      to_string.simps digit_char_def example_world_def Iterator_reader_kind_def)

subsection \<open>\<^verbatim>\<open>AsGraphDefInternal\<close>\<close>

text \<open>
  Claim C5 as stated fails: the claim has \<^verbatim>\<open>AsGraphDefInternal\<close> return an explicit
  "not supported" result to its caller. On the example dataset the call ends in an
  exception (\<open>isl\<close>: the left side of the sum), not in a returned status.
\<close>

theorem AsGraphDefInternal_returns_no_status:
  "isl (AsGraphDefInternal example_dataset)
   \<and> AsGraphDefInternal example_dataset
       = Inl (runtime_error ''Conversion to GraphDef is not supported.'')"
  by (simp add: AsGraphDefInternal_def)

text \<open>
  Claim C5, amended: every call of \<^verbatim>\<open>AsGraphDefInternal\<close> throws
  \<^verbatim>\<open>std::runtime_error("Conversion to GraphDef is not supported.")\<close>; it never returns a
  status, OK or not, and so never produces a graph node.
\<close>

theorem AsGraphDefInternal_throws:
  "AsGraphDefInternal d = Inl (runtime_error ''Conversion to GraphDef is not supported.'')
   \<and> (\<forall>st. AsGraphDefInternal d \<noteq> Inr st)"
  by (simp add: AsGraphDefInternal_def)

subsection \<open>\<^verbatim>\<open>GetNextInternal\<close>\<close>

text \<open>
  Claim C7: the value-or-done contract. When the reader yields a record, the call
  returns OK, appends exactly that record as one scalar string tensor and leaves
  \<open>end_of_sequence\<close> false; when the reader has no further record, the call returns
  OK, appends nothing and sets \<open>end_of_sequence\<close>. A call that returns OK does
  exactly one of the two.
\<close>

theorem GetNextInternal_value_or_done:
  "(fst (rd r) = Inr (Some record) \<longrightarrow>
      status (GetNextInternal rd r out) = Inr OK
      \<and> out_tensors (GetNextInternal rd r out) = out @ [ScalarString record]
      \<and> \<not> end_of_sequence (GetNextInternal rd r out))
   \<and> (fst (rd r) = Inr None \<longrightarrow>
      status (GetNextInternal rd r out) = Inr OK
      \<and> out_tensors (GetNextInternal rd r out) = out
      \<and> end_of_sequence (GetNextInternal rd r out))
   \<and> (status (GetNextInternal rd r out) = Inr OK \<longrightarrow>
      (end_of_sequence (GetNextInternal rd r out)
         \<longleftrightarrow> out_tensors (GetNextInternal rd r out) = out)
      \<and> (\<not> end_of_sequence (GetNextInternal rd r out)
         \<longleftrightarrow> (\<exists>record. out_tensors (GetNextInternal rd r out) = out @ [ScalarString record])))"
  by (auto simp: GetNextInternal_def split: prod.splits sum.splits option.splits exn.splits)

theorem GetNextInternal_value_or_done_witness:
  "fst (TextLineRecordReader_ReadRecord ''a\<newline>b'') = Inr (Some ''a'')
   \<and> GetNextInternal TextLineRecordReader_ReadRecord ''a\<newline>b'' []
       = \<lparr>status = Inr OK, out_tensors = [ScalarString ''a''], end_of_sequence = False,
          reader = ''b''\<rparr>
   \<and> fst (TextLineRecordReader_ReadRecord []) = Inr None
   \<and> GetNextInternal TextLineRecordReader_ReadRecord [] [ScalarString ''a'']
       = \<lparr>status = Inr OK, out_tensors = [ScalarString ''a''], end_of_sequence = True,
          reader = []\<rparr>"
  using GetNextInternal_value_or_done [of TextLineRecordReader_ReadRecord "''a\<newline>b''" "''a''" "[]"]
    GetNextInternal_value_or_done [of TextLineRecordReader_ReadRecord "[]" "''a''" "[ScalarString ''a'']"]
  by (simp add: GetNextInternal_def TextLineRecordReader_ReadRecord_def LF_def)

text \<open>
  Claim C6: a reader's error is surfaced. When \<^verbatim>\<open>ReadRecord\<close> throws a
  \<^verbatim>\<open>std::runtime_error\<close>, the call returns the status \<^verbatim>\<open>INTERNAL\<close> with the
  exception's message, \<open>end_of_sequence\<close> stays false and no tensor is appended; the
  reader has been asked once (its state is the one that single \<^verbatim>\<open>ReadRecord\<close> left).
\<close>

theorem GetNextInternal_surfaces_reader_error:
  assumes "fst (rd r) = Inl (runtime_error what)"
  shows "status (GetNextInternal rd r out) = Inr (Failed INTERNAL what)
         \<and> \<not> end_of_sequence (GetNextInternal rd r out)
         \<and> out_tensors (GetNextInternal rd r out) = out
         \<and> reader (GetNextInternal rd r out) = snd (rd r)"
  using assms by (cases "rd r") (simp add: GetNextInternal_def)

theorem GetNextInternal_surfaces_reader_error_witness:
  "fst (corrupt_reader ''abc'') = Inl (runtime_error ''CorruptRecord'')
   \<and> GetNextInternal corrupt_reader ''abc'' [ScalarString ''x'']
       = \<lparr>status = Inr (Failed INTERNAL ''CorruptRecord''), out_tensors = [ScalarString ''x''],
          end_of_sequence = False, reader = ''abc''\<rparr>"
  using GetNextInternal_surfaces_reader_error [of corrupt_reader "''abc''" "''CorruptRecord''" "[ScalarString ''x'']"]
  by (simp add: GetNextInternal_def corrupt_reader_def)

text \<open>
  Whatever the reader throws, the pull is not a success: the status is not OK,
  \<open>end_of_sequence\<close> stays false and no tensor is appended. An exception that is not
  a \<^verbatim>\<open>std::runtime_error\<close> is not caught: it leaves \<^verbatim>\<open>GetNextInternal\<close>.
\<close>

theorem GetNextInternal_exception_is_no_success:
  assumes "fst (rd r) = Inl e"
  shows "status (GetNextInternal rd r out) \<noteq> Inr OK
         \<and> \<not> end_of_sequence (GetNextInternal rd r out)
         \<and> out_tensors (GetNextInternal rd r out) = out
         \<and> ((\<forall>what. e \<noteq> runtime_error what) \<longrightarrow> status (GetNextInternal rd r out) = Inl e)"
  using assms by (cases "rd r"; cases e) (simp_all add: GetNextInternal_def)

theorem GetNextInternal_exception_is_no_success_witness:
  "fst ((\<lambda>s. (Inl (other_exception ''std::bad_alloc''), s)) ''abc'')
     = Inl (other_exception ''std::bad_alloc'')
   \<and> GetNextInternal (\<lambda>s. (Inl (other_exception ''std::bad_alloc''), s)) ''abc'' []
       = \<lparr>status = Inl (other_exception ''std::bad_alloc''), out_tensors = [],
          end_of_sequence = False, reader = ''abc''\<rparr>"
  using GetNextInternal_exception_is_no_success
    [of "\<lambda>s. (Inl (other_exception ''std::bad_alloc''), s)" "''abc''"
        "other_exception ''std::bad_alloc''" "[]"]
  by (simp add: GetNextInternal_def)

subsection \<open>The text-line reader\<close>

lemma TextLine_split:
  "LF \<notin> set line \<Longrightarrow>
     takeWhile (\<lambda>c. c \<noteq> LF) (line @ LF # rest) = line
     \<and> dropWhile (\<lambda>c. c \<noteq> LF) (line @ LF # rest) = LF # rest"
  by (induction line) auto

lemma TextLine_line:
  "LF \<notin> set line \<Longrightarrow>
     TextLineRecordReader_ReadRecord (line @ LF # rest) = (Inr (Some line), rest)"
  by (simp add: TextLineRecordReader_ReadRecord_def TextLine_split)

lemma TextLine_fragment:
  assumes "LF \<notin> set s" and "s \<noteq> []"
  shows "TextLineRecordReader_ReadRecord s = (Inr (Some s), [])"
proof -
  from assms(1) have tw: "takeWhile (\<lambda>c. c \<noteq> LF) s = s"
    and dw: "dropWhile (\<lambda>c. c \<noteq> LF) s = []"
    by auto
  show ?thesis
    unfolding TextLineRecordReader_ReadRecord_def Let_def tw dw
    using assms(2) by simp
qed

lemma TextLine_empty: "TextLineRecordReader_ReadRecord [] = (Inr None, [])"
  by (simp add: TextLineRecordReader_ReadRecord_def)


lemma nth_next_numeral [simp]:
  "nth_next rd (numeral k) r out =
     nth_next rd (pred_numeral k) (reader (GetNextInternal rd r out))
       (out_tensors (GetNextInternal rd r out))"
  by (simp add: numeral_eq_Suc)

text \<open>
  Claim C8: the text-line reader splits the stream at line feeds. The bytes before a
  line feed are one record, without the line feed; a non-empty fragment with no line
  feed is a final record; the empty stream is at its end. So the stream of "a", line
  feed, "b", line feed, "c" gives the records "a", "b", "c" with the third pull and the
  end of the sequence with the fourth; "a", line feed, "b", line feed gives "a", "b" and
  then the end; the empty stream gives the end with the first pull and no record.
\<close>

theorem TextLine_reader_splits_at_line_feeds:
  "(LF \<notin> set line \<longrightarrow>
      TextLineRecordReader_ReadRecord (line @ LF # rest) = (Inr (Some line), rest))
   \<and> (LF \<notin> set fragment \<and> fragment \<noteq> [] \<longrightarrow>
      TextLineRecordReader_ReadRecord fragment = (Inr (Some fragment), []))
   \<and> TextLineRecordReader_ReadRecord [] = (Inr None, [])
   \<and> nth_next TextLineRecordReader_ReadRecord 2 ''a\<newline>b\<newline>c'' []
       = \<lparr>status = Inr OK,
          out_tensors = [ScalarString ''a'', ScalarString ''b'', ScalarString ''c''],
          end_of_sequence = False, reader = []\<rparr>
   \<and> nth_next TextLineRecordReader_ReadRecord 3 ''a\<newline>b\<newline>c'' []
       = \<lparr>status = Inr OK,
          out_tensors = [ScalarString ''a'', ScalarString ''b'', ScalarString ''c''],
          end_of_sequence = True, reader = []\<rparr>
   \<and> nth_next TextLineRecordReader_ReadRecord 1 ''a\<newline>b\<newline>'' []
       = \<lparr>status = Inr OK, out_tensors = [ScalarString ''a'', ScalarString ''b''],
          end_of_sequence = False, reader = []\<rparr>
   \<and> nth_next TextLineRecordReader_ReadRecord 2 ''a\<newline>b\<newline>'' []
       = \<lparr>status = Inr OK, out_tensors = [ScalarString ''a'', ScalarString ''b''],
          end_of_sequence = True, reader = []\<rparr>
   \<and> nth_next TextLineRecordReader_ReadRecord 0 [] []
       = \<lparr>status = Inr OK, out_tensors = [], end_of_sequence = True, reader = []\<rparr>"
proof -
  have ex: "TextLineRecordReader_ReadRecord ''a\<newline>b\<newline>c'' = (Inr (Some ''a''), ''b\<newline>c'')"
    "TextLineRecordReader_ReadRecord ''b\<newline>c'' = (Inr (Some ''b''), ''c'')"
    "TextLineRecordReader_ReadRecord ''c'' = (Inr (Some ''c''), [])"
    "TextLineRecordReader_ReadRecord ''a\<newline>b\<newline>'' = (Inr (Some ''a''), ''b\<newline>'')"
    "TextLineRecordReader_ReadRecord ''b\<newline>'' = (Inr (Some ''b''), [])"
    by (simp_all add: TextLineRecordReader_ReadRecord_def LF_def)
  show ?thesis
    by (simp add: TextLine_line TextLine_fragment TextLine_empty GetNextInternal_def ex)
qed

theorem TextLine_reader_splits_at_line_feeds_witness:
  "LF \<notin> set ''a'' \<and> TextLineRecordReader_ReadRecord (''a'' @ LF # ''b'') = (Inr (Some ''a''), ''b'')
   \<and> LF \<notin> set ''c'' \<and> ''c'' \<noteq> [] \<and> TextLineRecordReader_ReadRecord ''c'' = (Inr (Some ''c''), [])"
  using TextLine_reader_splits_at_line_feeds [of "''a''" "''b''" "''c''"]
  by (simp add: LF_def)

subsection \<open>After the end of the stream, after an error\<close>










subsection \<open>\<^verbatim>\<open>MakeIterator\<close> and the pipe index\<close>















end
